theory Spec2Isabelle
  imports Complex_Main
begin

section \<open>Yellowstone wolf population models: the right-hand sides and the Euler loop\<close>

text \<open>
  The notebook defines four right-hand-side functions and one hand-written integrator,
  \<open>integrate_piecewise\<close>. The smooth models are handed to \<open>scipy.integrate.odeint\<close>,
  which is library code and is not modelled here.

  Numbers. The functions are written with the Python operators \<open>+ - * / <\<close> only. They
  are modelled over a type \<open>'a\<close> that is merely required to have these operators, so
  every structural result below holds for any interpretation of the arithmetic (it does
  not depend on rounding). Algebraic facts are stated over a field, and all concrete
  evaluations are over \<open>real\<close>.

  Errors. Two exceptions can leave these functions when they are called with Python
  numbers and sequences: \<open>IndexError\<close> from \<open>t[1]\<close> or \<open>t[0]\<close> on a short grid, and
  \<open>ZeroDivisionError\<close> from \<open>/\<close> on a zero divisor. A result is \<open>Inl e\<close> when the
  exception \<open>e\<close> is raised and \<open>Inr v\<close> when \<open>v\<close> is returned. NumPy values divide by
  zero to a non-finite value instead of raising; the functions on operands that may be
  NumPy values are modelled separately below (\<open>logistic_human_dyn\<close>,
  \<open>integrate_piecewise_dyn\<close>), and agree with the ones here when every operand is a
  Python number.
\<close>

datatype py_error = IndexError | ZeroDivisionError

text \<open>Python's \<open>a / b\<close> on numbers.\<close>

definition truediv :: "'a::{zero,inverse} \<Rightarrow> 'a \<Rightarrow> py_error + 'a" where
  "truediv a b = (if b = 0 then Inl ZeroDivisionError else Inr (a / b))"

subsection \<open>Right-hand sides\<close>

text \<open>
  \<^verbatim>\<open>
  def logistic_growth(P, t, r, K):
      return r * P * (1 - P / K)
  \<close>
\<close>

definition logistic_growth ::
  "'a::{zero,one,minus,times,inverse} \<Rightarrow> 'a \<Rightarrow> 'a \<Rightarrow> 'a \<Rightarrow> py_error + 'a" where
  "logistic_growth P t r K =
     (case truediv P K of
        Inl e \<Rightarrow> Inl e
      | Inr q \<Rightarrow> Inr (r * P * (1 - q)))"

text \<open>
  \<^verbatim>\<open>
  def logistic_piecewise(P, t, r, K_high, K_low, t_change):
      K = K_high if t < t_change else K_low
      return r * P * (1 - P / K)
  \<close>
\<close>

definition logistic_piecewise ::
  "'a::{zero,one,minus,times,inverse,ord} \<Rightarrow> 'a \<Rightarrow> 'a \<Rightarrow> 'a \<Rightarrow> 'a \<Rightarrow> 'a \<Rightarrow> py_error + 'a" where
  "logistic_piecewise P t r K_high K_low t_change =
     (let K = (if t < t_change then K_high else K_low) in
      case truediv P K of
        Inl e \<Rightarrow> Inl e
      | Inr q \<Rightarrow> Inr (r * P * (1 - q)))"

text \<open>
  \<^verbatim>\<open>
  def logistic_human(P, t, r, K, h):
      return r * P * (1 - P / K) - h
  \<close>
\<close>

definition logistic_human ::
  "'a::{zero,one,minus,times,inverse} \<Rightarrow> 'a \<Rightarrow> 'a \<Rightarrow> 'a \<Rightarrow> 'a \<Rightarrow> py_error + 'a" where
  "logistic_human P t r K h =
     (case truediv P K of
        Inl e \<Rightarrow> Inl e
      | Inr q \<Rightarrow> Inr (r * P * (1 - q) - h))"

subsection \<open>The fixed-step Euler integrator\<close>

text \<open>
  \<^verbatim>\<open>
  def integrate_piecewise(P0, t, r, K_high, K_low, t_change):
      dt = t[1] - t[0]
      P = [P0]
      for i in range(1, len(t)):
          K = K_high if t[i] < t_change else K_low
          dP = r * P[-1] * (1 - P[-1] / K)
          P.append(P[-1] + dP * dt)
      return np.array(P)
  \<close>
  The loop is a recursion over the indices \<open>range(1, len(t))\<close> that carries the list
  \<open>P\<close>; \<open>P[-1]\<close> is \<open>last P\<close>, since \<open>P\<close> is never empty. Every index the loop
  reads is below \<open>len(t)\<close>. The final \<open>np.array(P)\<close> repackages the list without
  changing its length or its entries, so the result is the list.
\<close>

fun integrate_piecewise_loop ::
  "'a::{zero,one,plus,minus,times,inverse,ord} list \<Rightarrow> 'a \<Rightarrow> 'a \<Rightarrow> 'a \<Rightarrow> 'a \<Rightarrow> 'a \<Rightarrow>
     'a list \<Rightarrow> nat list \<Rightarrow> py_error + 'a list" where
  "integrate_piecewise_loop t dt r K_high K_low t_change P [] = Inr P"
| "integrate_piecewise_loop t dt r K_high K_low t_change P (i # rest) =
     (let K = (if t ! i < t_change then K_high else K_low) in
      case truediv (last P) K of
        Inl e \<Rightarrow> Inl e
      | Inr q \<Rightarrow>
          (let dP = r * last P * (1 - q) in
           integrate_piecewise_loop t dt r K_high K_low t_change
             (P @ [last P + dP * dt]) rest))"

definition integrate_piecewise ::
  "'a::{zero,one,plus,minus,times,inverse,ord} \<Rightarrow> 'a list \<Rightarrow> 'a \<Rightarrow> 'a \<Rightarrow> 'a \<Rightarrow> 'a \<Rightarrow>
     py_error + 'a list" where
  "integrate_piecewise P0 t r K_high K_low t_change =
     (if length t < 2 then Inl IndexError
      else
        (let dt = t ! 1 - t ! 0 in
         integrate_piecewise_loop t dt r K_high K_low t_change [P0] [1..<length t]))"

subsection \<open>The reference trajectory of the specification\<close>




subsection \<open>Python numbers and NumPy values\<close>

text \<open>
  What \<open>P / K\<close> does at \<open>K = 0\<close> depends on the run-time kind of its operands. On two
  Python numbers it raises \<open>ZeroDivisionError\<close>. When an operand is a NumPy value (a
  \<open>float64\<close> scalar or an array) the division is NumPy's, which returns what the
  floating-point division yields (an infinity or a NaN) and raises nothing. Both kinds
  occur in the notebook: the grids are \<open>np.linspace\<close> arrays, so \<open>dt\<close> is a NumPy scalar
  and every state after the first step of \<open>integrate_piecewise\<close> is one, while \<open>P0 = 50\<close>
  and the capacities are Python numbers; \<open>odeint\<close> passes the state to the right-hand
  side as an array.

  A number is therefore a value of the carrier \<open>'a\<close> tagged with its kind: \<open>Py\<close> for a
  Python number, \<open>Np\<close> for a NumPy value. The carrier stands for the floats, non-finite
  ones included, and is again only required to have the operators. A Python int stands
  for the float it converts to, which presumes that it is within the float range. The
  result of \<open>+ - * /\<close> is a NumPy value as soon as one operand is; \<open>+ - *\<close> never raise
  on floats.
\<close>

datatype 'a pynum = Py 'a | Np 'a

fun num_val :: "'a pynum \<Rightarrow> 'a" where
  "num_val (Py a) = a"
| "num_val (Np a) = a"

fun is_numpy :: "'a pynum \<Rightarrow> bool" where
  "is_numpy (Py a) = False"
| "is_numpy (Np a) = True"

definition binop :: "('a \<Rightarrow> 'a \<Rightarrow> 'a) \<Rightarrow> 'a pynum \<Rightarrow> 'a pynum \<Rightarrow> 'a pynum" where
  "binop f x y =
     (if is_numpy x \<or> is_numpy y then Np (f (num_val x) (num_val y))
      else Py (f (num_val x) (num_val y)))"

text \<open>Python's \<open>a / b\<close> on tagged numbers.\<close>

definition truediv_dyn :: "'a::{zero,inverse} pynum \<Rightarrow> 'a pynum \<Rightarrow> py_error + 'a pynum" where
  "truediv_dyn x y =
     (if \<not> is_numpy x \<and> \<not> is_numpy y \<and> num_val y = 0 then Inl ZeroDivisionError
      else Inr (binop (/) x y))"

text \<open>
  The second model of the right-hand side with removal and of the integrator, on tagged
  numbers. The code is the same as above, line by line; only the operators are the
  tagged ones. \<open>np.array(P)\<close> turns the list into an array of floats, the list of the
  values.
\<close>

definition logistic_human_dyn ::
  "'a::{zero,one,minus,times,inverse} pynum \<Rightarrow> 'a pynum \<Rightarrow> 'a pynum \<Rightarrow> 'a pynum \<Rightarrow> 'a pynum \<Rightarrow>
     py_error + 'a pynum" where
  "logistic_human_dyn P t r K h =
     (case truediv_dyn P K of
        Inl e \<Rightarrow> Inl e
      | Inr q \<Rightarrow> Inr (binop (-) (binop (*) (binop (*) r P) (binop (-) (Py 1) q)) h))"

fun integrate_piecewise_dyn_loop ::
  "'a::{zero,one,plus,minus,times,inverse,ord} pynum list \<Rightarrow> 'a pynum \<Rightarrow> 'a pynum \<Rightarrow> 'a pynum \<Rightarrow>
     'a pynum \<Rightarrow> 'a pynum \<Rightarrow> 'a pynum list \<Rightarrow> nat list \<Rightarrow> py_error + 'a pynum list" where
  "integrate_piecewise_dyn_loop t dt r K_high K_low t_change P [] = Inr P"
| "integrate_piecewise_dyn_loop t dt r K_high K_low t_change P (i # rest) =
     (let K = (if num_val (t ! i) < num_val t_change then K_high else K_low) in
      case truediv_dyn (last P) K of
        Inl e \<Rightarrow> Inl e
      | Inr q \<Rightarrow>
          (let dP = binop (*) (binop (*) r (last P)) (binop (-) (Py 1) q) in
           integrate_piecewise_dyn_loop t dt r K_high K_low t_change
             (P @ [binop (+) (last P) (binop (*) dP dt)]) rest))"

definition integrate_piecewise_dyn ::
  "'a::{zero,one,plus,minus,times,inverse,ord} pynum \<Rightarrow> 'a pynum list \<Rightarrow> 'a pynum \<Rightarrow> 'a pynum \<Rightarrow>
     'a pynum \<Rightarrow> 'a pynum \<Rightarrow> py_error + 'a list" where
  "integrate_piecewise_dyn P0 t r K_high K_low t_change =
     (if length t < 2 then Inl IndexError
      else
        (let dt = binop (-) (t ! 1) (t ! 0) in
         case integrate_piecewise_dyn_loop t dt r K_high K_low t_change [P0] [1..<length t] of
           Inl e \<Rightarrow> Inl e
         | Inr P \<Rightarrow> Inr (map num_val P)))"

subsection \<open>A carrier with non-finite values\<close>

text \<open>
  For concrete runs with non-finite values: the reals extended by the two infinities
  and NaN, with the arithmetic of IEEE 754 on them. Rounding and overflow of finite
  values are not modelled, and the sign of a zero is not (a zero divisor counts as
  \<open>+0\<close>, as the float of the Python int \<open>0\<close> is).
\<close>

datatype xfloat = Fin real | PInf | NInf | NaN

fun xf_neg :: "xfloat \<Rightarrow> xfloat" where
  "xf_neg (Fin a) = Fin (- a)"
| "xf_neg PInf = NInf"
| "xf_neg NInf = PInf"
| "xf_neg NaN = NaN"

fun xf_add :: "xfloat \<Rightarrow> xfloat \<Rightarrow> xfloat" where
  "xf_add (Fin a) (Fin b) = Fin (a + b)"
| "xf_add NaN y = NaN"
| "xf_add x NaN = NaN"
| "xf_add PInf NInf = NaN"
| "xf_add NInf PInf = NaN"
| "xf_add PInf y = PInf"
| "xf_add x PInf = PInf"
| "xf_add NInf y = NInf"
| "xf_add x NInf = NInf"

fun xf_inf :: "real \<Rightarrow> xfloat" where
  "xf_inf s = (if s = 0 then NaN else if 0 < s then PInf else NInf)"

fun xf_mul :: "xfloat \<Rightarrow> xfloat \<Rightarrow> xfloat" where
  "xf_mul (Fin a) (Fin b) = Fin (a * b)"
| "xf_mul NaN y = NaN"
| "xf_mul x NaN = NaN"
| "xf_mul (Fin a) PInf = xf_inf a"
| "xf_mul (Fin a) NInf = xf_inf (- a)"
| "xf_mul PInf (Fin b) = xf_inf b"
| "xf_mul NInf (Fin b) = xf_inf (- b)"
| "xf_mul PInf PInf = PInf"
| "xf_mul PInf NInf = NInf"
| "xf_mul NInf PInf = NInf"
| "xf_mul NInf NInf = PInf"

fun xf_div :: "xfloat \<Rightarrow> xfloat \<Rightarrow> xfloat" where
  "xf_div (Fin a) (Fin b) = (if b = 0 then xf_inf a else Fin (a / b))"
| "xf_div NaN y = NaN"
| "xf_div x NaN = NaN"
| "xf_div (Fin a) PInf = Fin 0"
| "xf_div (Fin a) NInf = Fin 0"
| "xf_div PInf (Fin b) = (if 0 \<le> b then PInf else NInf)"
| "xf_div NInf (Fin b) = (if 0 \<le> b then NInf else PInf)"
| "xf_div PInf PInf = NaN"
| "xf_div PInf NInf = NaN"
| "xf_div NInf PInf = NaN"
| "xf_div NInf NInf = NaN"

fun xf_less :: "xfloat \<Rightarrow> xfloat \<Rightarrow> bool" where
  "xf_less (Fin a) (Fin b) = (a < b)"
| "xf_less (Fin a) PInf = True"
| "xf_less NInf (Fin b) = True"
| "xf_less NInf PInf = True"
| "xf_less x y = False"

instantiation xfloat :: "{zero,one,plus,minus,times,inverse,ord}"
begin

definition zero_xfloat :: xfloat where "zero_xfloat = Fin 0"
definition one_xfloat :: xfloat where "one_xfloat = Fin 1"
definition plus_xfloat :: "xfloat \<Rightarrow> xfloat \<Rightarrow> xfloat" where "plus_xfloat = xf_add"
definition minus_xfloat :: "xfloat \<Rightarrow> xfloat \<Rightarrow> xfloat" where
  "minus_xfloat a b = xf_add a (xf_neg b)"
definition times_xfloat :: "xfloat \<Rightarrow> xfloat \<Rightarrow> xfloat" where "times_xfloat = xf_mul"
definition divide_xfloat :: "xfloat \<Rightarrow> xfloat \<Rightarrow> xfloat" where "divide_xfloat = xf_div"
definition inverse_xfloat :: "xfloat \<Rightarrow> xfloat" where "inverse_xfloat a = xf_div (Fin 1) a"
definition less_xfloat :: "xfloat \<Rightarrow> xfloat \<Rightarrow> bool" where "less_xfloat = xf_less"
definition less_eq_xfloat :: "xfloat \<Rightarrow> xfloat \<Rightarrow> bool" where
  "less_eq_xfloat a b = (a \<noteq> NaN \<and> b \<noteq> NaN \<and> (xf_less a b \<or> a = b))"

instance ..

end

section \<open>Properties of the loop\<close>

text \<open>
  What a run of the loop that returns has computed, and how a run can fail. The list of
  indices is arbitrary here, so that the induction goes through.
\<close>

lemma loop_Cons_Inr:
  "integrate_piecewise_loop t dt r Kh Kl tc P (i # rest) = Inr P' \<longleftrightarrow>
     (if t ! i < tc then Kh else Kl) \<noteq> 0 \<and>
     integrate_piecewise_loop t dt r Kh Kl tc
       (P @ [last P + r * last P * (1 - last P / (if t ! i < tc then Kh else Kl)) * dt]) rest = Inr P'"
  by (simp add: truediv_def Let_def)

lemma loop_Inr:
  "integrate_piecewise_loop t dt r Kh Kl tc P idx = Inr P' \<Longrightarrow> P \<noteq> [] \<Longrightarrow>
     length P' = length P + length idx \<and> take (length P) P' = P \<and>
     (\<forall>j<length idx.
        (if t ! (idx ! j) < tc then Kh else Kl) \<noteq> 0 \<and>
        P' ! (length P + j) =
          P' ! (length P + j - 1) +
          r * P' ! (length P + j - 1) *
            (1 - P' ! (length P + j - 1) / (if t ! (idx ! j) < tc then Kh else Kl)) * dt)"
proof (induction idx arbitrary: P)
  case Nil
  then show ?case by simp
next
  case (Cons i rest)
  let ?K = "if t ! i < tc then Kh else Kl"
  let ?new = "last P + r * last P * (1 - last P / ?K) * dt"
  from Cons.prems(1) have K: "?K \<noteq> 0"
    and run: "integrate_piecewise_loop t dt r Kh Kl tc (P @ [?new]) rest = Inr P'"
    unfolding loop_Cons_Inr by blast+
  from Cons.IH [OF run] have len: "length P' = length P + 1 + length rest"
    and tk: "take (length P + 1) P' = P @ [?new]"
    and steps: "\<And>j. j < length rest \<Longrightarrow>
        (if t ! (rest ! j) < tc then Kh else Kl) \<noteq> 0 \<and>
        P' ! (length P + 1 + j) =
          P' ! (length P + 1 + j - 1) +
          r * P' ! (length P + 1 + j - 1) *
            (1 - P' ! (length P + 1 + j - 1) / (if t ! (rest ! j) < tc then Kh else Kl)) * dt"
    by simp_all
  have nth_tk: "\<And>k. k < length P + 1 \<Longrightarrow> P' ! k = (P @ [?new]) ! k"
    using tk by (metis nth_take)
  have at_new: "P' ! length P = ?new"
    using nth_tk [of "length P"] by simp
  have at_last: "P' ! (length P - 1) = last P"
    using nth_tk [of "length P - 1"] Cons.prems(2)
    by (simp add: nth_append last_conv_nth)
  have tk': "take (length P) P' = P"
  proof -
    have "take (length P) P' = take (length P) (take (length P + 1) P')"
      by simp
    also have "\<dots> = P" unfolding tk by simp
    finally show ?thesis .
  qed
  have "(if t ! ((i # rest) ! j) < tc then Kh else Kl) \<noteq> 0 \<and>
        P' ! (length P + j) =
          P' ! (length P + j - 1) +
          r * P' ! (length P + j - 1) *
            (1 - P' ! (length P + j - 1) / (if t ! ((i # rest) ! j) < tc then Kh else Kl)) * dt"
    if "j < length (i # rest)" for j
  proof (cases j)
    case 0
    then show ?thesis using K at_new at_last by simp
  next
    case (Suc j')
    with that have "j' < length rest" by simp
    from steps [OF this] show ?thesis using Suc by simp
  qed
  with len tk' show ?case by simp
qed

lemma loop_Cons_Inl:
  "integrate_piecewise_loop t dt r Kh Kl tc P (i # rest) = Inl e \<longleftrightarrow>
     ((if t ! i < tc then Kh else Kl) = 0 \<and> e = ZeroDivisionError) \<or>
     ((if t ! i < tc then Kh else Kl) \<noteq> 0 \<and>
      integrate_piecewise_loop t dt r Kh Kl tc
       (P @ [last P + r * last P * (1 - last P / (if t ! i < tc then Kh else Kl)) * dt]) rest = Inl e)"
  by (auto simp: truediv_def Let_def)

lemma loop_Inl:
  "integrate_piecewise_loop t dt r Kh Kl tc P idx = Inl e \<Longrightarrow>
     e = ZeroDivisionError \<and> (\<exists>i\<in>set idx. (if t ! i < tc then Kh else Kl) = 0)"
proof (induction idx arbitrary: P)
  case Nil
  then show ?case by simp
next
  case (Cons i rest)
  from Cons.prems show ?case
    unfolding loop_Cons_Inl using Cons.IH by fastforce
qed

lemma integrate_Inr:
  assumes "integrate_piecewise P0 t r Kh Kl tc = Inr P"
  shows "2 \<le> length t" and "length P = length t" and "P ! 0 = P0"
    and "\<And>i. 1 \<le> i \<Longrightarrow> i < length t \<Longrightarrow>
          (if t ! i < tc then Kh else Kl) \<noteq> 0 \<and>
          P ! i = P ! (i - 1) +
            r * P ! (i - 1) * (1 - P ! (i - 1) / (if t ! i < tc then Kh else Kl)) * (t ! 1 - t ! 0)"
proof -
  from assms show len2: "2 \<le> length t"
    by (simp add: integrate_piecewise_def split: if_splits)
  with assms have run:
    "integrate_piecewise_loop t (t ! 1 - t ! 0) r Kh Kl tc [P0] [1..<length t] = Inr P"
    by (simp add: integrate_piecewise_def Let_def)
  from loop_Inr [OF run] have len: "length P = 1 + length [1..<length t]"
    and tk: "take 1 P = [P0]"
    and steps: "\<And>j. j < length [1..<length t] \<Longrightarrow>
        (if t ! ([1..<length t] ! j) < tc then Kh else Kl) \<noteq> 0 \<and>
        P ! (1 + j) = P ! (1 + j - 1) +
          r * P ! (1 + j - 1) *
            (1 - P ! (1 + j - 1) / (if t ! ([1..<length t] ! j) < tc then Kh else Kl)) * (t ! 1 - t ! 0)"
    by simp_all
  from len len2 show "length P = length t" by simp
  from tk show "P ! 0 = P0"
    by (metis nth_take zero_less_one nth_Cons_0)
  fix i :: nat
  assume i: "1 \<le> i" "i < length t"
  then have j: "i - 1 < length [1..<length t]" by simp
  from i have idx: "[1..<length t] ! (i - 1) = i" by simp
  from steps [OF j] i idx
  show "(if t ! i < tc then Kh else Kl) \<noteq> 0 \<and>
          P ! i = P ! (i - 1) +
            r * P ! (i - 1) * (1 - P ! (i - 1) / (if t ! i < tc then Kh else Kl)) * (t ! 1 - t ! 0)"
    by simp
qed

lemma integrate_Inl:
  assumes "integrate_piecewise P0 t r Kh Kl tc = Inl e"
  shows "(length t < 2 \<and> e = IndexError) \<or>
         (2 \<le> length t \<and> e = ZeroDivisionError \<and>
          (\<exists>i. 1 \<le> i \<and> i < length t \<and> (if t ! i < tc then Kh else Kl) = 0))"
proof (cases "length t < 2")
  case True
  with assms show ?thesis by (simp add: integrate_piecewise_def)
next
  case False
  with assms have
    "integrate_piecewise_loop t (t ! 1 - t ! 0) r Kh Kl tc [P0] [1..<length t] = Inl e"
    by (simp add: integrate_piecewise_def Let_def)
  from loop_Inl [OF this] False show ?thesis by auto
qed

lemma integrate_IndexError_iff:
  "integrate_piecewise P0 t r Kh Kl tc = Inl IndexError \<longleftrightarrow> length t < 2"
  using integrate_Inl [of P0 t r Kh Kl tc IndexError]
  by (auto simp: integrate_piecewise_def)



section \<open>Properties of the loop on tagged numbers\<close>




lemma dyn_loop_Cons_Inl:
  "integrate_piecewise_dyn_loop t dt r Kh Kl tc P (i # rest) = Inl e \<longleftrightarrow>
     (\<not> is_numpy (last P) \<and> \<not> is_numpy (if num_val (t ! i) < num_val tc then Kh else Kl) \<and>
      num_val (if num_val (t ! i) < num_val tc then Kh else Kl) = 0 \<and> e = ZeroDivisionError) \<or>
     ((is_numpy (last P) \<or> is_numpy (if num_val (t ! i) < num_val tc then Kh else Kl) \<or>
       num_val (if num_val (t ! i) < num_val tc then Kh else Kl) \<noteq> 0) \<and>
      integrate_piecewise_dyn_loop t dt r Kh Kl tc
       (P @ [binop (+) (last P)
               (binop (*)
                  (binop (*) (binop (*) r (last P))
                     (binop (-) (Py 1)
                        (binop (/) (last P) (if num_val (t ! i) < num_val tc then Kh else Kl))))
                  dt)]) rest = Inl e)"
  by (auto simp: truediv_dyn_def Let_def)








lemma binop_Py: "binop f (Py a) (Py b) = Py (f a b)"
  by (simp add: binop_def)

lemma dyn_loop_python:
  "\<forall>i\<in>set idx. i < length t \<Longrightarrow> P \<noteq> [] \<Longrightarrow>
   integrate_piecewise_dyn_loop (map Py t) (Py dt) (Py r) (Py Kh) (Py Kl) (Py tc) (map Py P) idx =
   map_sum id (map Py) (integrate_piecewise_loop t dt r Kh Kl tc P idx)"
proof (induction idx arbitrary: P)
  case Nil
  then show ?case by simp
next
  case (Cons i rest)
  let ?K = "if t ! i < tc then Kh else Kl"
  from Cons.prems have i: "i < length t" and rest: "\<forall>i\<in>set rest. i < length t" by simp_all
  have K: "(if num_val (map Py t ! i) < num_val (Py tc) then Py Kh else Py Kl) = Py ?K"
    using i by simp
  have lst: "last (map Py P) = Py (last P)"
    using Cons.prems(2) by (simp add: last_map)
  show ?case
  proof (cases "?K = 0")
    case True
    have "integrate_piecewise_dyn_loop (map Py t) (Py dt) (Py r) (Py Kh) (Py Kl) (Py tc) (map Py P)
            (i # rest) = Inl ZeroDivisionError"
      unfolding dyn_loop_Cons_Inl K lst using True by simp
    moreover have "integrate_piecewise_loop t dt r Kh Kl tc P (i # rest) = Inl ZeroDivisionError"
      unfolding loop_Cons_Inl using True by simp
    ultimately show ?thesis by simp
  next
    case False
    let ?new = "last P + r * last P * (1 - last P / ?K) * dt"
    have "integrate_piecewise_dyn_loop (map Py t) (Py dt) (Py r) (Py Kh) (Py Kl) (Py tc) (map Py P) (i # rest) =
          integrate_piecewise_dyn_loop (map Py t) (Py dt) (Py r) (Py Kh) (Py Kl) (Py tc) (map Py (P @ [?new])) rest"
      unfolding integrate_piecewise_dyn_loop.simps Let_def K lst
      using False by (simp add: truediv_dyn_def binop_Py)
    also have "\<dots> = map_sum id (map Py) (integrate_piecewise_loop t dt r Kh Kl tc (P @ [?new]) rest)"
      by (rule Cons.IH [OF rest]) simp
    also have "\<dots> = map_sum id (map Py) (integrate_piecewise_loop t dt r Kh Kl tc P (i # rest))"
      using False by (simp add: truediv_def Let_def)
    finally show ?thesis .
  qed
qed

lemma integrate_piecewise_dyn_python:
  "integrate_piecewise_dyn (Py P0) (map Py t) (Py r) (Py Kh) (Py Kl) (Py tc) =
   integrate_piecewise P0 t r Kh Kl tc"
proof (cases "length t < 2")
  case True
  then show ?thesis by (simp add: integrate_piecewise_dyn_def integrate_piecewise_def)
next
  case False
  then have "1 < length t" "0 < length t" by linarith+
  then have "map Py t ! 1 = Py (t ! 1)" "map Py t ! 0 = Py (t ! 0)"
    by (simp_all only: nth_map)
  then have dt: "binop (-) (map Py t ! 1) (map Py t ! 0) = Py (t ! 1 - t ! 0)"
    by (simp only: binop_Py)
  have loop: "integrate_piecewise_dyn_loop (map Py t) (Py (t ! 1 - t ! 0)) (Py r) (Py Kh) (Py Kl)
          (Py tc) (map Py [P0]) [1..<length t] =
        map_sum id (map Py)
          (integrate_piecewise_loop t (t ! 1 - t ! 0) r Kh Kl tc [P0] [1..<length t])"
    by (rule dyn_loop_python) simp_all
  have "integrate_piecewise_dyn (Py P0) (map Py t) (Py r) (Py Kh) (Py Kl) (Py tc) =
      (case map_sum id (map Py)
              (integrate_piecewise_loop t (t ! 1 - t ! 0) r Kh Kl tc [P0] [1..<length t]) of
         Inl e \<Rightarrow> Inl e
       | Inr P \<Rightarrow> Inr (map num_val P))"
    unfolding integrate_piecewise_dyn_def Let_def dt using False loop by simp
  also have "\<dots> = integrate_piecewise_loop t (t ! 1 - t ! 0) r Kh Kl tc [P0] [1..<length t]"
    by (cases "integrate_piecewise_loop t (t ! 1 - t ! 0) r Kh Kl tc [P0] [1..<length t]")
       (simp_all add: comp_def)
  also have "\<dots> = integrate_piecewise P0 t r Kh Kl tc"
    using False by (simp add: integrate_piecewise_def Let_def)
  finally show ?thesis .
qed

lemma logistic_human_dyn_python:
  "logistic_human_dyn (Py P) (Py s) (Py r) (Py K) (Py h) =
   map_sum id Py (logistic_human P s r K h)"
  by (simp add: logistic_human_dyn_def logistic_human_def truediv_dyn_def truediv_def binop_Py)

subsection \<open>Concrete runs\<close>

text \<open>
  Three runs with the notebook's parameters (\<open>P0 = 50\<close>, \<open>r = 0.3\<close>, \<open>K_high = 500\<close>,
  \<open>K_low = 200\<close>) on short grids: an unevenly spaced grid, and an evenly spaced grid
  whose second point is exactly \<open>t_change\<close>.
\<close>

lemma run_uneven_grid:
  "integrate_piecewise (50::real) [0, 1, 3] (3/10) 500 200 15 = Inr [50, 127/2, 1602613/20000]"
  by (simp add: integrate_piecewise_def truediv_def Let_def upt_conv_Cons)

lemma run_even_grid:
  "integrate_piecewise (50::real) [0, 1, 2] (3/10) 500 200 1 = Inr [50, 245/4, 94717/1280]"
  by (simp add: integrate_piecewise_def truediv_def Let_def upt_conv_Cons)





section \<open>The claims\<close>

subsection \<open>C1: the Euler step\<close>

text \<open>
  C1, as the code has it. Whenever \<open>integrate_piecewise\<close> returns a trajectory \<open>P\<close>,
  every step \<open>1 \<le> i < len(t)\<close> advances the state by
  \<open>P[i] = P[i-1] + derivative * dt\<close>, where the derivative is the logistic right-hand
  side \<open>logistic_growth\<close> at the previous state (with the capacity of the step, one of
  \<open>K_high\<close> and \<open>K_low\<close>) and \<open>dt = t[1] - t[0]\<close> is the spacing of the first pair,
  computed once before the loop. When the spacing of the pair \<open>(i-1, i)\<close> equals the first
  spacing, this is \<open>dt = t[i] - t[i-1]\<close>.
\<close>

theorem euler_step_with_first_spacing:
  assumes "integrate_piecewise P0 t r K_high K_low t_change = Inr P"
    and "1 \<le> i" and "i < length t"
  shows "\<exists>K derivative.
           (K = K_high \<or> K = K_low) \<and>
           logistic_growth (P ! (i - 1)) (t ! (i - 1)) r K = Inr derivative \<and>
           P ! i = P ! (i - 1) + derivative * (t ! 1 - t ! 0) \<and>
           (t ! i - t ! (i - 1) = t ! 1 - t ! 0 \<longrightarrow>
              P ! i = P ! (i - 1) + derivative * (t ! i - t ! (i - 1)))"
proof -
  let ?K = "if t ! i < t_change then K_high else K_low"
  let ?d = "r * P ! (i - 1) * (1 - P ! (i - 1) / ?K)"
  from integrate_Inr(4) [OF assms] have K: "?K \<noteq> 0"
    and step: "P ! i = P ! (i - 1) + ?d * (t ! 1 - t ! 0)"
    by blast+
  from K have rhs: "logistic_growth (P ! (i - 1)) (t ! (i - 1)) r ?K = Inr ?d"
    by (simp add: logistic_growth_def truediv_def)
  have Kc: "?K = K_high \<or> ?K = K_low" by simp
  show ?thesis
  proof (intro exI conjI impI)
    show "?K = K_high \<or> ?K = K_low" by (rule Kc)
    show "logistic_growth (P ! (i - 1)) (t ! (i - 1)) r ?K = Inr ?d" by (rule rhs)
    show "P ! i = P ! (i - 1) + ?d * (t ! 1 - t ! 0)" by (rule step)
    assume "t ! i - t ! (i - 1) = t ! 1 - t ! 0"
    with step show "P ! i = P ! (i - 1) + ?d * (t ! i - t ! (i - 1))" by simp
  qed
qed

text \<open>
  The theorem at the second step of the grid \<open>[0, 1, 3]\<close>: the state advances by the
  derivative times \<open>1 - 0\<close>.
\<close>

theorem euler_step_with_first_spacing_witness:
  "integrate_piecewise (50::real) [0, 1, 3] (3/10) 500 200 15 =
     Inr [50, 127/2, 1602613/20000] \<and>
   (\<exists>K derivative. (K = 500 \<or> K = 200) \<and>
      logistic_growth (127/2::real) 1 (3/10) K = Inr derivative \<and>
      (1602613/20000::real) = 127/2 + derivative * (1 - 0))"
proof -
  have i: "1 \<le> (2::nat)" "2 < length [0, 1, 3::real]" by simp_all
  from euler_step_with_first_spacing [OF run_uneven_grid i]
  have "\<exists>K derivative. (K = 500 \<or> K = 200) \<and>
      logistic_growth (127/2::real) 1 (3/10) K = Inr derivative \<and>
      (1602613/20000::real) = 127/2 + derivative * (1 - 0)"
    by simp
  with run_uneven_grid show ?thesis by blast
qed

text \<open>
  C1 as stated fails on a strictly increasing grid that is not evenly spaced. On
  \<open>[0, 1, 3]\<close> the second step starts from \<open>127/2\<close> with derivative \<open>332613/20000\<close>;
  the code adds the derivative times \<open>1 - 0\<close>, not times \<open>3 - 1\<close>.
\<close>

theorem step_ignores_pair_spacing:
  "sorted_wrt (<) [0, 1, 3::real] \<and>
   integrate_piecewise (50::real) [0, 1, 3] (3/10) 500 200 15 =
     Inr [50, 127/2, 1602613/20000] \<and>
   logistic_growth (127/2::real) 1 (3/10) 500 = Inr (332613/20000) \<and>
   (1602613/20000::real) \<noteq> 127/2 + 332613/20000 * (3 - 1) \<and>
   (1602613/20000::real) = 127/2 + 332613/20000 * (1 - 0)"
  by (simp add: run_uneven_grid logistic_growth_def truediv_def)

subsection \<open>C2: one entry per grid point\<close>

text \<open>
  C2. On every grid with at least two points and for every initial state, the
  trajectory \<open>integrate_piecewise\<close> returns has exactly one entry per grid point and
  its first entry is \<open>P0\<close>. The only way such a call does not return a trajectory is a
  \<open>ZeroDivisionError\<close>, which needs a zero capacity.
\<close>

theorem trajectory_one_entry_per_grid_point:
  "2 \<le> length t \<Longrightarrow>
   (case integrate_piecewise P0 t r K_high K_low t_change of
      Inr P \<Rightarrow> length P = length t \<and> hd P = P0
    | Inl e \<Rightarrow> e = ZeroDivisionError \<and> (K_high = 0 \<or> K_low = 0))"
proof (cases "integrate_piecewise P0 t r K_high K_low t_change")
  case (Inl e)
  assume "2 \<le> length t"
  with integrate_Inl [OF Inl] have "e = ZeroDivisionError \<and> (K_high = 0 \<or> K_low = 0)"
    by (auto split: if_splits)
  with Inl show ?thesis by simp
next
  case (Inr P)
  from integrate_Inr(1-3) [OF Inr] have "length P = length t \<and> hd P = P0"
    by (cases P) auto
  with Inr show ?thesis by simp
qed

text \<open>The theorem on the three-point grid \<open>[0, 1, 3]\<close>.\<close>

theorem trajectory_one_entry_per_grid_point_witness:
  "2 \<le> length [0, 1, 3::real] \<and>
   integrate_piecewise (50::real) [0, 1, 3] (3/10) 500 200 15 = Inr [50, 127/2, 1602613/20000] \<and>
   length [50, 127/2, 1602613/20000::real] = length [0, 1, 3::real] \<and>
   hd [50, 127/2, 1602613/20000::real] = 50"
proof -
  have "2 \<le> length [0, 1, 3::real]" by simp
  from trajectory_one_entry_per_grid_point
         [OF this, where ?P0.0 = "50::real" and r = "3/10" and K_high = 500 and K_low = 200
            and t_change = 15]
       run_uneven_grid
  show ?thesis by simp
qed

subsection \<open>C3: which capacity a step uses\<close>

text \<open>
  C3. Whenever \<open>integrate_piecewise\<close> returns a trajectory \<open>P\<close>, the capacity of step
  \<open>i\<close> is \<open>K_high\<close> if \<open>t[i] < t_change\<close> and \<open>K_low\<close> otherwise: the step adds
  \<open>r * P[i-1] * (1 - P[i-1] / K) * dt\<close> for that \<open>K\<close>, which is the right-hand side
  \<open>logistic_piecewise\<close> evaluated at the target time \<open>t[i]\<close> of the step. A step with
  \<open>t[i] = t_change\<close> uses \<open>K_low\<close>.
\<close>

theorem capacity_chosen_by_target_time:
  fixes P0 :: "'a::{zero,one,plus,minus,times,inverse,preorder}"
  assumes "integrate_piecewise P0 t r K_high K_low t_change = Inr P"
    and "1 \<le> i" and "i < length t"
  shows "(let K = (if t ! i < t_change then K_high else K_low) in
            K \<noteq> 0 \<and>
            P ! i = P ! (i - 1) + r * P ! (i - 1) * (1 - P ! (i - 1) / K) * (t ! 1 - t ! 0) \<and>
            logistic_piecewise (P ! (i - 1)) (t ! i) r K_high K_low t_change =
              Inr (r * P ! (i - 1) * (1 - P ! (i - 1) / K)) \<and>
            (t ! i = t_change \<longrightarrow> K = K_low))"
proof -
  let ?K = "if t ! i < t_change then K_high else K_low"
  from integrate_Inr(4) [OF assms] have K: "?K \<noteq> 0"
    and step: "P ! i = P ! (i - 1) + r * P ! (i - 1) * (1 - P ! (i - 1) / ?K) * (t ! 1 - t ! 0)"
    by blast+
  from K have "logistic_piecewise (P ! (i - 1)) (t ! i) r K_high K_low t_change =
      Inr (r * P ! (i - 1) * (1 - P ! (i - 1) / ?K))"
    by (simp add: logistic_piecewise_def truediv_def Let_def)
  moreover have "t ! i = t_change \<longrightarrow> ?K = K_low" by simp
  ultimately show ?thesis using K step unfolding Let_def by blast
qed

text \<open>
  The theorem at the first step of the grid \<open>[0, 1, 2]\<close> with \<open>t_change = 1\<close>: the target
  time \<open>t[1] = 1\<close> equals \<open>t_change\<close>, so the step uses \<open>K_low = 200\<close>, although the
  previous time \<open>t[0] = 0\<close> is below \<open>t_change\<close>; with \<open>K_high = 500\<close> the state would
  differ.
\<close>

theorem capacity_chosen_by_target_time_witness:
  "integrate_piecewise (50::real) [0, 1, 2] (3/10) 500 200 1 = Inr [50, 245/4, 94717/1280] \<and>
   [0, 1, 2::real] ! 1 = 1 \<and>
   (245/4::real) = 50 + 3/10 * 50 * (1 - 50 / 200) * (1 - 0) \<and>
   (245/4::real) \<noteq> 50 + 3/10 * 50 * (1 - 50 / 500) * (1 - 0) \<and>
   logistic_piecewise (50::real) 1 (3/10) 500 200 1 = Inr (3/10 * 50 * (1 - 50 / 200))"
proof -
  have i: "1 \<le> (1::nat)" "1 < length [0, 1, 2::real]" by simp_all
  from capacity_chosen_by_target_time [OF run_even_grid i] run_even_grid
  show ?thesis by (simp add: Let_def)
qed

subsection \<open>C4: malformed grids\<close>

text \<open>
  C4, as the code has it. \<open>integrate_piecewise\<close> raises \<open>IndexError\<close> exactly on the
  grids with fewer than two points: such a call fails at \<open>t[1] - t[0]\<close>, before any
  step, and returns no trajectory; no grid with two or more points raises it. The
  grid is not checked for being strictly increasing.
\<close>

theorem short_grid_raises_IndexError:
  "integrate_piecewise P0 t r K_high K_low t_change = Inl IndexError \<longleftrightarrow> length t < 2"
  by (rule integrate_IndexError_iff)

text \<open>The theorem on a one-point grid and on the empty grid.\<close>

theorem short_grid_raises_IndexError_witness:
  "integrate_piecewise (50::real) [0] (3/10) 500 200 15 = Inl IndexError \<and>
   integrate_piecewise (50::real) [] (3/10) 500 200 15 = Inl IndexError"
  using short_grid_raises_IndexError
          [where ?P0.0 = "50::real" and t = "[0]" and r = "3/10" and K_high = 500
             and K_low = 200 and t_change = 15]
        short_grid_raises_IndexError
          [where ?P0.0 = "50::real" and t = "[]" and r = "3/10" and K_high = 500
             and K_low = 200 and t_change = 15]
  by simp

text \<open>
  C4 as stated fails on a grid that is not strictly increasing: the decreasing grid
  \<open>[1, 0]\<close> is integrated, with the negative step \<open>dt = -1\<close>, and a trajectory is
  returned.
\<close>

theorem decreasing_grid_is_integrated:
  "\<not> sorted_wrt (<) [1, 0::real] \<and>
   integrate_piecewise (50::real) [1, 0] (3/10) 500 200 15 = Inr [50, 73/2]"
  by (simp add: integrate_piecewise_def truediv_def Let_def upt_conv_Cons)

subsection \<open>C5: agreement with the reference trajectory\<close>




subsection \<open>C7: zero and negative capacity\<close>




subsection \<open>C10: removal is growth minus \<open>h\<close>\<close>

text \<open>
  C10. For every state, time and parameters, \<open>logistic_human\<close> is \<open>logistic_growth\<close>
  minus \<open>h\<close> (both raise for \<open>K = 0\<close>); with \<open>h = 0\<close> the two coincide; and for
  \<open>K \<noteq> 0\<close>, \<open>logistic_growth\<close> is zero at \<open>P = 0\<close> and at \<open>P = K\<close>.
\<close>

theorem logistic_human_is_growth_minus_removal:
  fixes P t r K h :: "'a::field"
  shows "(case logistic_growth P t r K of
            Inl e \<Rightarrow> logistic_human P t r K h = Inl e
          | Inr g \<Rightarrow> logistic_human P t r K h = Inr (g - h)) \<and>
         logistic_human P t r K 0 = logistic_growth P t r K \<and>
         (K \<noteq> 0 \<longrightarrow> logistic_growth 0 t r K = Inr 0 \<and> logistic_growth K t r K = Inr 0)"
  by (simp add: logistic_growth_def logistic_human_def truediv_def)

text \<open>The theorem with the notebook's parameters \<open>r = 0.3\<close>, \<open>K = 500\<close>, \<open>h = 10\<close>.\<close>

theorem logistic_human_is_growth_minus_removal_witness:
  "logistic_growth (50::real) 0 (3/10) 500 = Inr (27/2) \<and>
   logistic_human (50::real) 0 (3/10) 500 10 = Inr (27/2 - 10) \<and>
   logistic_human (50::real) 0 (3/10) 500 0 = Inr (27/2) \<and>
   logistic_growth (0::real) 0 (3/10) 500 = Inr 0 \<and>
   logistic_growth (500::real) 0 (3/10) 500 = Inr 0"
proof -
  have g: "logistic_growth (50::real) 0 (3/10) 500 = Inr (27/2)"
    by (simp add: logistic_growth_def truediv_def)
  from logistic_human_is_growth_minus_removal
         [where P = "50::real" and t = 0 and r = "3/10" and K = 500 and h = 10]
       logistic_human_is_growth_minus_removal
         [where P = "50::real" and t = 0 and r = "3/10" and K = 500 and h = 0]
       g
  show ?thesis by simp
qed

end
